theory Spec2Isabelle
  imports Complex_Main "HOL-Library.Word" "HOL-Library.Log_Nat" "HOL-Library.Monad_Syntax"
begin

unbundle bit_operations_syntax

section \<open>Numbers\<close>

text \<open>
  The program is TypeScript; every quantity is an IEEE double. The embedding
  idealises a finite double as a \<open>real\<close>: rounding error is not modelled,
  except in the three additions named at the end of this text.
  Integers that the program keeps integral (the generator state, the
  results of \<open>randInt\<close>, \<open>Math.round\<close>, \<open>Math.floor\<close> and \<open>parseInteger\<close>) are
  \<open>int\<close>, \<open>nat\<close> or \<open>32 word\<close>.

  Two places where HOL's total arithmetic is not JavaScript's: \<open>x / 0\<close> is \<open>0\<close>
  in HOL and an infinity or NaN in JavaScript, and \<open>0 powi n\<close> for negative \<open>n\<close>
  is \<open>0\<close> in HOL and \<open>Infinity\<close> in JavaScript. A theorem below that states a
  sign or an order carries the hypotheses that keep every divisor non-zero,
  and every concrete input divides by non-zero numbers only. A theorem that
  equates the result of a function with a formula holds at such a point
  because both sides contain the same division.

  The one NaN the grader can meet by construction is the result of
  \<open>parseFloat\<close> on a string without a leading number; \<open>jsnum\<close> keeps it.

  The rounding that is modelled: \<open>computeGameTruth\<close> builds \<open>capA\<close>, \<open>totalCPM\<close> and
  \<open>totalPPPM\<close> by additions, and a double addition returns the double nearest
  to the exact sum: a term far below the precision of the other is absorbed.
  Whether a total exceeds \<open>capA\<close> is decided by that rounding, so these three
  additions are \<open>double_add\<close>; the products, quotients and powers stay exact.
\<close>

datatype jsnum = NaN | Num real

text \<open>\<open>Math.pow(x, n)\<close> at the call sites of this program: the exponent is a
  year count (\<open>rwle\<close>, \<open>rle\<close>, \<open>N\<close>, \<open>RLE\<close> or its negation), an integer.\<close>

definition Math_pow :: "real \<Rightarrow> int \<Rightarrow> real" where
  "Math_pow x n = x powi n"

text \<open>\<open>Math.round\<close> rounds to the nearest integer, halves towards plus infinity.\<close>

definition Math_round :: "real \<Rightarrow> int" where
  "Math_round x = \<lfloor>x + 1 / 2\<rfloor>"

definition Math_floor :: "real \<Rightarrow> int" where
  "Math_floor x = \<lfloor>x\<rfloor>"

text \<open>
  Rounding to binary64, to nearest, ties to even. \<open>double_scale\<close> is \<open>2^1074\<close>,
  one over the smallest positive double: a real \<open>x\<close> is scaled to
  \<open>x * 2^1074\<close>, where the doubles are the integers of at most 53 bits times a
  power of two. \<open>double_quantum x\<close> is the exponent of the spacing of the
  doubles around the scaled \<open>x\<close> (0 in the subnormal range), and \<open>round_double\<close>
  rounds the scaled \<open>x\<close> to a multiple of that spacing. Overflow to an infinity
  (from \<open>2^1024\<close> on) is not modelled.
\<close>

definition round_half_even :: "real \<Rightarrow> int" where
  "round_half_even y =
    (let f = \<lfloor>y\<rfloor>; d = y - real_of_int f
     in if d < 1 / 2 then f else if 1 / 2 < d then f + 1 else if even f then f else f + 1)"

definition double_scale :: real where
  "double_scale = 2 ^ 1074"

definition double_quantum :: "real \<Rightarrow> nat" where
  "double_quantum x = nat (bitlen \<lfloor>\<bar>x\<bar> * double_scale\<rfloor> - 53)"

definition round_double :: "real \<Rightarrow> real" where
  "round_double x =
    (let q = double_quantum x
     in real_of_int (round_half_even (x * double_scale / 2 ^ q)) * 2 ^ q / double_scale)"

definition double_add :: "real \<Rightarrow> real \<Rightarrow> real" where
  "double_add a b = round_double (a + b)"

text \<open>Arithmetic and comparison on a value that may be NaN: NaN propagates
  through arithmetic and every comparison with NaN is false.\<close>

fun js_sub :: "jsnum \<Rightarrow> jsnum \<Rightarrow> jsnum" where
  "js_sub (Num a) (Num b) = Num (a - b)"
| "js_sub _ _ = NaN"

fun js_div :: "jsnum \<Rightarrow> jsnum \<Rightarrow> jsnum" where
  "js_div (Num a) (Num b) = Num (a / b)"
| "js_div _ _ = NaN"

fun js_abs :: "jsnum \<Rightarrow> jsnum" where
  "js_abs (Num a) = Num \<bar>a\<bar>"
| "js_abs NaN = NaN"

fun js_le :: "jsnum \<Rightarrow> jsnum \<Rightarrow> bool" where
  "js_le (Num a) (Num b) = (a \<le> b)"
| "js_le _ _ = False"

fun js_gt :: "jsnum \<Rightarrow> jsnum \<Rightarrow> bool" where
  "js_gt (Num a) (Num b) = (a > b)"
| "js_gt _ _ = False"

section \<open>Seeded generator\<close>

type_synonym u32 = "32 word"

text \<open>\<open>Math.imul\<close>: the low 32 bits of the product.\<close>

definition Math_imul :: "u32 \<Rightarrow> u32 \<Rightarrow> u32" where
  "Math_imul a b = a * b"

text \<open>
  \<open>mulberry32(a)\<close> returns a closure over \<open>t = a >>> 0\<close>. The closure's state
  is the number \<open>t\<close>, an integer: the source adds \<open>0x6D2B79F5\<close> to it without
  truncating, and every later use goes through a bitwise operator or
  \<open>Math.imul\<close>, which read \<open>t\<close> modulo \<open>2^32\<close>. \<open>mulberry32\<close> gives the initial
  state and \<open>mulberry32_next\<close> is one call of the closure: the float returned
  and the new state.
\<close>

definition mulberry32 :: "u32 \<Rightarrow> int" where
  "mulberry32 a = uint a"

definition mulberry32_next :: "int \<Rightarrow> real \<times> int" where
  "mulberry32_next t0 =
    (let t = t0 + 0x6D2B79F5;
         tw = (word_of_int t :: u32);
         r = Math_imul (tw XOR drop_bit 15 tw) (1 OR tw);
         r = r XOR (r + Math_imul (r XOR drop_bit 7 r) (61 OR r))
     in (real_of_int (uint (r XOR drop_bit 14 r)) / 4294967296, t))"

definition randInt :: "int \<Rightarrow> int \<Rightarrow> int \<Rightarrow> int \<times> int" where
  "randInt rng lo hi =
    (let (u, rng') = mulberry32_next rng
     in (lo + Math_floor (u * real_of_int (hi - lo + 1)), rng'))"

definition randFloat :: "int \<Rightarrow> real \<Rightarrow> real \<Rightarrow> real \<times> int" where
  "randFloat rng lo hi =
    (let (u, rng') = mulberry32_next rng
     in (lo + u * (hi - lo), rng'))"

text \<open>\<open>splitSeed\<close>: \<open>base\<close> is read modulo \<open>2^32\<close> by the XOR, \<open>idx\<close> is the
  problem counter, a natural number.\<close>

definition GOLD :: u32 where
  "GOLD = 0x9E3779B9"

definition splitSeed :: "u32 \<Rightarrow> nat \<Rightarrow> u32" where
  "splitSeed base idx = base XOR Math_imul (word_of_nat (idx + 1)) GOLD"

section \<open>Finance engine\<close>

datatype Timing = END | BEGIN

definition computeRealRate :: "real \<Rightarrow> real \<Rightarrow> real" where
  "computeRealRate r g = (1 + r) / (1 + g) - 1"

definition capitalAnnuity :: "real \<Rightarrow> real \<Rightarrow> int \<Rightarrow> real" where
  "capitalAnnuity pmt1 rReal RLE =
    (if \<bar>rReal\<bar> < 1 / 10 ^ 12 then pmt1 * real_of_int RLE
     else let factor = (1 - Math_pow (1 + rReal) (- RLE)) / rReal
          in pmt1 * factor * (1 + rReal))"

definition annualSavings :: "real \<Rightarrow> real \<Rightarrow> real \<Rightarrow> int \<Rightarrow> Timing \<Rightarrow> real" where
  "annualSavings PVcur K r N timing =
    (let FVexist = PVcur * Math_pow (1 + r) N;
         need = K - FVexist
     in if need \<le> 0 then 0
        else let pmtEnd = (if \<bar>r\<bar> < 1 / 10 ^ 12 then need / real_of_int N
                           else need / ((Math_pow (1 + r) N - 1) / r))
             in if timing = BEGIN then pmtEnd / (1 + r) else pmtEnd)"

record GameScenario =
  scn_name :: string
  scn_bio :: string
  scn_income :: real
  scn_wrr :: real
  scn_ss :: real
  scn_rwle :: int
  scn_rle :: int
  scn_g :: real
  scn_r :: real
  scn_pvcur :: real
  scn_rRetire :: "real option"
  scn_bequest :: "real option"

record GameTruth =
  truth_need_today :: real
  truth_PMT1 :: real
  truth_r_real :: real
  truth_capA :: real
  truth_keepCPM :: real
  truth_totalCPM :: real
  truth_keepPPPM :: real
  truth_totalPPPM :: real
  truth_svA :: real
  truth_svCPM :: real
  truth_svPPPM :: real

text \<open>
  \<open>typeof scn.rRetire === "number"\<close> is \<open>scn_rRetire scn \<noteq> None\<close>; the
  truthiness test \<open>scn.bequest ? \<dots> : 0\<close> takes the first branch for a bequest
  that is present and not zero.
\<close>

definition computeGameTruth :: "GameScenario \<Rightarrow> Timing \<Rightarrow> GameTruth" where
  "computeGameTruth scn timing =
    (let need_today = max 0 (scn_wrr scn * scn_income scn - scn_ss scn);
         PMT1 = need_today * Math_pow (1 + scn_g scn) (scn_rwle scn);
         rDuring = (case scn_rRetire scn of Some x \<Rightarrow> x | None \<Rightarrow> scn_r scn);
         r_real = computeRealRate rDuring (scn_g scn);
         bequestPV = (case scn_bequest scn of
                        Some b \<Rightarrow> if b \<noteq> 0 then b / Math_pow (1 + r_real) (scn_rle scn) else 0
                      | None \<Rightarrow> 0);
         capA = double_add (capitalAnnuity PMT1 r_real (scn_rle scn)) bequestPV;
         keepCPM = capA / Math_pow (1 + rDuring) (scn_rle scn);
         totalCPM = double_add capA keepCPM;
         keepPPPM = capA / Math_pow (1 + r_real) (scn_rle scn);
         totalPPPM = double_add capA keepPPPM;
         svA = annualSavings (scn_pvcur scn) capA (scn_r scn) (scn_rwle scn) timing;
         svCPM = annualSavings (scn_pvcur scn) totalCPM (scn_r scn) (scn_rwle scn) timing;
         svPPPM = annualSavings (scn_pvcur scn) totalPPPM (scn_r scn) (scn_rwle scn) timing
     in \<lparr> truth_need_today = need_today, truth_PMT1 = PMT1, truth_r_real = r_real,
          truth_capA = capA, truth_keepCPM = keepCPM, truth_totalCPM = totalCPM,
          truth_keepPPPM = keepPPPM, truth_totalPPPM = totalPPPM, truth_svA = svA,
          truth_svCPM = svCPM, truth_svPPPM = svPPPM \<rparr>)"

section \<open>Scenario generator\<close>

datatype Difficulty = Easy | Normal | Hard

record Ranges =
  ranges_income :: "int \<times> int"
  ranges_wrr :: "real \<times> real"
  ranges_ss :: "int \<times> int"
  ranges_rwle :: "int \<times> int"
  ranges_rle :: "int \<times> int"
  ranges_g :: "real \<times> real"
  ranges_r :: "real \<times> real"
  ranges_pvcur :: "int \<times> int"

fun RANGES :: "Difficulty \<Rightarrow> Ranges" where
  "RANGES Easy =
    \<lparr> ranges_income = (50000, 90000), ranges_wrr = (0.65, 0.85), ranges_ss = (12000, 28000),
      ranges_rwle = (15, 25), ranges_rle = (20, 30), ranges_g = (0.02, 0.035),
      ranges_r = (0.06, 0.09), ranges_pvcur = (0, 50000) \<rparr>"
| "RANGES Normal =
    \<lparr> ranges_income = (60000, 120000), ranges_wrr = (0.7, 0.85), ranges_ss = (15000, 30000),
      ranges_rwle = (20, 35), ranges_rle = (20, 35), ranges_g = (0.02, 0.04),
      ranges_r = (0.07, 0.1), ranges_pvcur = (0, 200000) \<rparr>"
| "RANGES Hard =
    \<lparr> ranges_income = (80000, 180000), ranges_wrr = (0.7, 0.9), ranges_ss = (15000, 40000),
      ranges_rwle = (10, 35), ranges_rle = (20, 35), ranges_g = (0.025, 0.045),
      ranges_r = (0.07, 0.11), ranges_pvcur = (0, 400000) \<rparr>"

text \<open>\<open>RANGES[difficulty] || RANGES.normal\<close>: every tier has its entry, so the
  fallback is never taken.

  Reading an array at an index: out of range the source reads \<open>undefined\<close>,
  here \<open>None\<close>.\<close>

definition js_index :: "'a list \<Rightarrow> int \<Rightarrow> 'a option" where
  "js_index xs i = (if 0 \<le> i \<and> i < int (length xs) then Some (xs ! nat i) else None)"

text \<open>
  \<open>generateScenarioFromSeed\<close> threads the one generator through every draw in
  the source's order. The result is \<open>None\<close> when an array read is out of range
  (a field of the scenario would be \<open>undefined\<close>).
\<close>

definition generateScenarioFromSeed :: "u32 \<Rightarrow> Difficulty \<Rightarrow> GameScenario option" where
  "generateScenarioFromSeed baseSeed difficulty =
    (let ranges = RANGES difficulty;
         rng = mulberry32 baseSeed;
         (income, rng) = randInt rng (fst (ranges_income ranges)) (snd (ranges_income ranges));
         (wrr, rng) = randFloat rng (fst (ranges_wrr ranges)) (snd (ranges_wrr ranges));
         (ss, rng) = randInt rng (fst (ranges_ss ranges)) (snd (ranges_ss ranges));
         (rwle, rng) = randInt rng (fst (ranges_rwle ranges)) (snd (ranges_rwle ranges));
         (rle, rng) = randInt rng (fst (ranges_rle ranges)) (snd (ranges_rle ranges));
         (g, rng) = randFloat rng (fst (ranges_g ranges)) (snd (ranges_g ranges));
         (r, rng) = randFloat rng (fst (ranges_r ranges)) (snd (ranges_r ranges));
         r = (if r \<le> g then g + 0.0005 else r);
         (pvcur, rng) = randInt rng (fst (ranges_pvcur ranges)) (snd (ranges_pvcur ranges))
     in do {
       (income, wrr, ss, rwle, rle, g, r, pvcur, rng) \<leftarrow>
         (if difficulty = Easy then do {
            let wrrChoices = [0.70, 0.75, 0.80, 0.85];
            let gChoices = [0.020, 0.025, 0.030, 0.035];
            let rChoices = [0.060, 0.070, 0.080, 0.090];
            let (i, rng) = randInt rng 0 (int (length wrrChoices) - 1);
            wrr \<leftarrow> js_index wrrChoices i;
            let (i, rng) = randInt rng 0 (int (length gChoices) - 1);
            g \<leftarrow> js_index gChoices i;
            let (i, rng) = randInt rng 0 (int (length rChoices) - 1);
            r \<leftarrow> js_index rChoices i;
            let r = (if r \<le> g then g + 0.005 else r);
            let income = Math_round (real_of_int income / 1000) * 1000;
            let ss = Math_round (real_of_int ss / 1000) * 1000;
            let rwle = Math_round (real_of_int rwle / 5) * 5;
            let rle = Math_round (real_of_int rle / 5) * 5;
            let pvcur = 0;
            Some (income, wrr, ss, rwle, rle, g, r, pvcur, rng)
          } else Some (income, wrr, ss, rwle, rle, g, r, pvcur, rng));
       let (rRetire, rng) =
         (if difficulty = Hard then
            (let (delta, rng) = randFloat rng (- 0.02) 0.02;
                 rRetire = max 0 (r + delta);
                 rRetire = (if rRetire \<le> g then g + 0.0005 else rRetire)
             in (Some rRetire, rng))
          else (None, rng));
       let (bequest, rng) =
         (if difficulty = Hard then
            (let rDuring = (case rRetire of Some x \<Rightarrow> x | None \<Rightarrow> r);
                 need_today = max 0 (wrr * real_of_int income - real_of_int ss);
                 PMT1 = need_today * Math_pow (1 + g) rwle;
                 r_real = computeRealRate rDuring g;
                 capA_est = capitalAnnuity PMT1 r_real rle;
                 (ratio, rng) = randFloat rng 0.05 0.25
             in (Some (max 0 (real_of_int (Math_round (capA_est * ratio / 1000) * 1000))), rng))
          else (None, rng));
       let NAMES = [''Alex'', ''Jordan'', ''Taylor'', ''Morgan'', ''Riley'', ''Casey'', ''Drew''];
       let LAST = [''Reeves'', ''Kim'', ''Singh'', ''Garcia'', ''Patel'', ''Lee''];
       let BIOS = [''Analyst planning hikes.'', ''Small business owner plan.'',
                   ''Teacher traveler.'', ''Engineer optimizer.''];
       let (i, rng) = randInt rng 0 (int (length NAMES) - 1);
       firstName \<leftarrow> js_index NAMES i;
       let (i, rng) = randInt rng 0 (int (length LAST) - 1);
       lastName \<leftarrow> js_index LAST i;
       let (i, rng) = randInt rng 0 (int (length BIOS) - 1);
       bio \<leftarrow> js_index BIOS i;
       Some \<lparr> scn_name = firstName @ '' '' @ lastName, scn_bio = bio,
              scn_income = real_of_int income, scn_wrr = wrr, scn_ss = real_of_int ss,
              scn_rwle = rwle, scn_rle = rle, scn_g = g, scn_r = r,
              scn_pvcur = real_of_int pvcur, scn_rRetire = rRetire, scn_bequest = bequest \<rparr>
     })"

section \<open>Grader\<close>

datatype Status = Correct | Incorrect

datatype Method = Ann | Cpm | Pppm

definition gradeOne :: "jsnum \<Rightarrow> real \<Rightarrow> Status" where
  "gradeOne userVal truthVal =
    (let absErr = js_abs (js_sub userVal (Num truthVal));
         pctErr = (if truthVal = 0 then (if js_gt absErr (Num 0) then Num 1 else Num 0)
                   else js_abs (js_div absErr (Num truthVal)));
         tolDollar = Num 500;
         tolPctStrict = Num (1 / 100)
     in if js_le pctErr tolPctStrict \<or> js_le absErr tolDollar then Correct else Incorrect)"

text \<open>
  The answer strings. \<open>replace(/[^0-9.\-]/g, "")\<close> keeps digits, dots and minus
  signs. \<open>parseFloat\<close> is modelled on the strings that survive that filter (no
  white space, plus sign, exponent or \<open>Infinity\<close> can occur in them): an
  optional minus sign, then the longest run of digits, then, if a dot follows,
  the longest run of digits after it; with no digit on either side of the dot
  the result is NaN. Whatever follows the number is ignored.
\<close>

definition is_digit :: "char \<Rightarrow> bool" where
  "is_digit c = (c \<in> set ''0123456789'')"

definition strip_non_numeric :: "string \<Rightarrow> string" where
  "strip_non_numeric s = filter (\<lambda>c. is_digit c \<or> c = CHR ''.'' \<or> c = CHR ''-'') s"

definition digits_value :: "string \<Rightarrow> nat" where
  "digits_value ds = foldl (\<lambda>a c. 10 * a + (of_char c - 48)) 0 ds"

definition parseFloat :: "string \<Rightarrow> jsnum" where
  "parseFloat s =
    (let (neg, body) = (case s of c # cs \<Rightarrow> if c = CHR ''-'' then (True, cs) else (False, s)
                                | [] \<Rightarrow> (False, s));
         ip = takeWhile is_digit body;
         rest = dropWhile is_digit body;
         fp = (case rest of c # cs \<Rightarrow> if c = CHR ''.'' then takeWhile is_digit cs else []
                          | [] \<Rightarrow> []);
         mag = real (digits_value ip) + real (digits_value fp) / 10 ^ length fp
     in if ip = [] \<and> fp = [] then NaN else Num (if neg then - mag else mag))"

text \<open>The expression \<open>parseFloat((answers[k] || "0").toString().replace(\<dots>))\<close>
  that \<open>grade\<close> applies to each of its fields: a missing or empty answer is
  replaced by the string \<open>"0"\<close> before the filter.\<close>

definition answerValue :: "(string \<rightharpoonup> string) \<Rightarrow> string \<Rightarrow> jsnum" where
  "answerValue answers k =
    parseFloat (strip_non_numeric
      (case answers k of None \<Rightarrow> ''0'' | Some s \<Rightarrow> if s = [] then ''0'' else s))"

record Stats =
  attempted :: nat
  allCorrect :: nat
  correct :: nat
  incorrect :: nat

text \<open>\<open>grade\<close> reads the active method, the answers and the truth from the
  component's state and writes the statuses and the statistics; here it takes
  them as arguments and returns the statuses (in insertion order) with the
  updated statistics.\<close>

definition grade ::
  "Method \<Rightarrow> (string \<rightharpoonup> string) \<Rightarrow> GameTruth \<Rightarrow> Stats \<Rightarrow> (string \<times> Status) list \<times> Stats" where
  "grade activeMethod answers gameTruth s =
    (let res =
       (case activeMethod of
          Ann \<Rightarrow>
            [(''cap_ann'', gradeOne (answerValue answers ''cap_ann'') (truth_capA gameTruth)),
             (''sv_ann'', gradeOne (answerValue answers ''sv_ann'') (truth_svA gameTruth))]
        | Cpm \<Rightarrow>
            [(''cap_cpm'', gradeOne (answerValue answers ''cap_cpm'') (truth_totalCPM gameTruth)),
             (''sv_cpm'', gradeOne (answerValue answers ''sv_cpm'') (truth_svCPM gameTruth))]
        | Pppm \<Rightarrow>
            [(''cap_pppm'', gradeOne (answerValue answers ''cap_pppm'') (truth_totalPPPM gameTruth)),
             (''sv_pppm'', gradeOne (answerValue answers ''sv_pppm'') (truth_svPPPM gameTruth))]);
         keys = map fst res;
         numCorrect = length (filter (\<lambda>k. map_of res k = Some Correct) keys);
         numIncorrect = length keys - numCorrect
     in (res,
         \<lparr> attempted = attempted s + 1,
           allCorrect = allCorrect s + (if numIncorrect = 0 then 1 else 0),
           correct = correct s + numCorrect,
           incorrect = incorrect s + numIncorrect \<rparr>))"

section \<open>Specification-side definitions and sample inputs\<close>

text \<open>The relative error as the specification words it.\<close>

definition relative_error_spec :: "real \<Rightarrow> real \<Rightarrow> real" where
  "relative_error_spec u t =
    (if t \<noteq> 0 then \<bar>u - t\<bar> / \<bar>t\<bar> else if \<bar>u - t\<bar> > 0 then 1 else 0)"

text \<open>
  A scenario a player can reach by editing the scenario fields of a generated
  problem: income 100, replacement ratio 100 percent, no pension, one year to
  retirement, one year in retirement, no inflation, a 5 percent return, no
  savings. Its truth has \<open>capA = 100\<close>.
\<close>

definition small_scenario :: GameScenario where
  "small_scenario =
    \<lparr> scn_name = [], scn_bio = [], scn_income = 100, scn_wrr = 1, scn_ss = 0,
      scn_rwle = 1, scn_rle = 1, scn_g = 0, scn_r = 5 / 100, scn_pvcur = 0,
      scn_rRetire = None, scn_bequest = None \<rparr>"

text \<open>The same scenario with an in-retirement return of 10 percent.\<close>

definition small_scenario_retire :: GameScenario where
  "small_scenario_retire = small_scenario \<lparr> scn_rRetire := Some (1 / 10) \<rparr>"


section \<open>Properties of the rounding\<close>


lemma round_half_even_of_int: "round_half_even (real_of_int m) = m"
  by (simp add: round_half_even_def)
















text \<open>Rounding in the binade \<open>[2^k, 2^(k+1))\<close>: the quantum is \<open>2^(k - 52)\<close>.\<close>

lemma double_scale_split: "double_scale = 2 ^ 52 * 2 ^ 1022"
  by (simp add: double_scale_def)

lemma round_double_binade:
  assumes "2 ^ k \<le> x" "x < 2 ^ Suc k"
  shows "round_double x = real_of_int (round_half_even (x * 2 ^ 52 / 2 ^ k)) * 2 ^ k / 2 ^ 52"
proof -
  have x0: "0 < x" using assms(1) by (smt (verit) zero_less_power)
  have "real_of_int (2 ^ (k + 1074)) \<le> x * double_scale"
    using assms(1) by (simp add: power_add double_scale_def)
  then have lo: "2 ^ (k + 1074) \<le> \<lfloor>x * double_scale\<rfloor>"
    by (simp only: le_floor_iff)
  have "x * double_scale < real_of_int (2 ^ (k + 1075))"
    using assms(2) by (simp add: power_add double_scale_def)
  then have hi: "\<lfloor>x * double_scale\<rfloor> < 2 ^ (k + 1075)"
    by (simp only: floor_less_iff)
  have "bitlen \<lfloor>x * double_scale\<rfloor> \<le> int (k + 1075)"
    using hi by (simp add: bitlen_le_iff_power nat_add_distrib)
  moreover have "int (k + 1075) \<le> bitlen \<lfloor>x * double_scale\<rfloor>"
    using lo by (simp add: bitlen_ge_iff_power nat_add_distrib add.commute)
  ultimately have "bitlen \<lfloor>x * double_scale\<rfloor> = int (k + 1075)" by linarith
  then have q: "double_quantum x = k + 1022"
    using x0 by (simp add: double_quantum_def)
  have "x * double_scale / 2 ^ (k + 1022) = x * 2 ^ 52 / 2 ^ k"
    by (simp add: double_scale_split power_add)
  moreover have "y * 2 ^ (k + 1022) / double_scale = y * 2 ^ k / 2 ^ 52" for y :: real
    by (simp add: double_scale_split power_add)
  ultimately show ?thesis by (simp add: round_double_def Let_def q)
qed

lemma round_double_100: "round_double 100 = 100"
proof -
  have "round_double 100 = real_of_int (round_half_even (100 * 2 ^ 52 / 2 ^ 6)) * 2 ^ 6 / 2 ^ 52"
    by (rule round_double_binade) simp_all
  also have "100 * 2 ^ 52 / 2 ^ 6 = real_of_int 7036874417766400" by simp
  finally show ?thesis by (simp only: round_half_even_of_int) simp
qed

section \<open>Properties of the grader\<close>

text \<open>C1. For a numeric answer \<open>u\<close> and a truth \<open>t\<close>, \<open>gradeOne\<close> marks the field
  correct exactly when the relative error is at most 1 percent or the
  absolute error is at most 500, the relative error being \<open>|u - t| / |t|\<close> for
  \<open>t \<noteq> 0\<close> and, for \<open>t = 0\<close>, 1 when \<open>|u - t| > 0\<close> and 0 otherwise.\<close>

theorem gradeOne_tolerance:
  "gradeOne (Num u) t = Correct \<longleftrightarrow> relative_error_spec u t \<le> 1 / 100 \<or> \<bar>u - t\<bar> \<le> 500"
  by (simp add: gradeOne_def relative_error_spec_def Let_def)

text \<open>C5, as stated, fails: against a truth of exactly 0 the answer 100 is not
  marked incorrect. Its absolute error, 100, is within the 500 tolerance, and
  either tolerance alone suffices.\<close>

theorem gradeOne_truth0_user100_counterexample:
  "gradeOne (Num 100) 0 \<noteq> Incorrect"
  by (simp add: gradeOne_def)

text \<open>C5, amended. Against a truth of exactly 0, the answer 0 is marked correct
  and so is the answer 100; an answer \<open>u\<close> is marked incorrect exactly when
  \<open>|u| > 500\<close>.\<close>

theorem gradeOne_truth0:
  "gradeOne (Num 0) 0 = Correct \<and> gradeOne (Num 100) 0 = Correct \<and>
   (gradeOne (Num u) 0 = Incorrect \<longleftrightarrow> 500 < \<bar>u\<bar>)"
  by (simp add: gradeOne_def)

text \<open>What \<open>grade\<close> makes of an answer string: a missing or empty answer is the
  number 0; an answer that keeps no digit is NaN, and NaN is marked correct
  exactly when the truth is 0.\<close>

lemma answerValue_missing: "answers k = None \<Longrightarrow> answerValue answers k = Num 0"
  by (simp add: answerValue_def parseFloat_def strip_non_numeric_def is_digit_def
      digits_value_def)

lemma answerValue_empty: "answers k = Some [] \<Longrightarrow> answerValue answers k = Num 0"
  by (simp add: answerValue_def parseFloat_def strip_non_numeric_def is_digit_def
      digits_value_def)

lemma answerValue_abc: "answerValue [''cap_ann'' \<mapsto> ''abc''] ''cap_ann'' = NaN"
  by (simp add: answerValue_def parseFloat_def strip_non_numeric_def is_digit_def)

lemma gradeOne_NaN: "gradeOne NaN t = (if t = 0 then Correct else Incorrect)"
  by (simp add: gradeOne_def)

lemma small_scenario_truth:
  "truth_need_today (computeGameTruth small_scenario END) = 100
   \<and> truth_r_real (computeGameTruth small_scenario END) = 5 / 100
   \<and> truth_capA (computeGameTruth small_scenario END) = 100
   \<and> truth_keepCPM (computeGameTruth small_scenario END) = 2000 / 21
   \<and> truth_keepPPPM (computeGameTruth small_scenario END) = 2000 / 21
   \<and> truth_svA (computeGameTruth small_scenario END) = 100"
  by (simp add: computeGameTruth_def small_scenario_def Let_def Math_pow_def
      computeRealRate_def capitalAnnuity_def annualSavings_def double_add_def round_double_100)

text \<open>C6 at a failing input. The truth of \<open>small_scenario\<close> has \<open>capA = 100\<close>.
  The answer \<open>abc\<close> for the capital field is marked incorrect, while the number
  0 is marked correct against the same truth (its absolute error is 100); the
  missing savings answer, read as 0, is marked correct.\<close>

theorem grade_unparsable_answer:
  "fst (grade Ann [''cap_ann'' \<mapsto> ''abc''] (computeGameTruth small_scenario END) s)
     = [(''cap_ann'', Incorrect), (''sv_ann'', Correct)]
   \<and> gradeOne (Num 0) (truth_capA (computeGameTruth small_scenario END)) = Correct"
  by (simp add: grade_def answerValue_abc answerValue_missing small_scenario_truth gradeOne_NaN)
     (simp add: gradeOne_def)

section \<open>Properties of the seed deriver\<close>

lemma word_xor_cancel_left: "(b XOR x = b XOR y) = (x = y)" for b x y :: u32
proof
  assume "b XOR x = b XOR y"
  then have "b XOR (b XOR x) = b XOR (b XOR y)" by simp
  then show "x = y" by (simp add: bit.xor_left_self)
qed simp

lemma splitSeed_unat:
  "unat (splitSeed base idx) = unat base XOR ((idx + 1) * 0x9E3779B9) mod 2 ^ 32"
  by (simp add: splitSeed_def Math_imul_def GOLD_def unsigned_xor_eq unat_word_ariths
      unat_of_nat mod_simps)

lemma splitSeed_distinct: "distinct (map (splitSeed b) [0..<10])"
  by (simp add: upt_rec splitSeed_def Math_imul_def GOLD_def word_xor_cancel_left)

text \<open>C8. Read as unsigned 32-bit numbers, \<open>splitSeed base idx\<close> is \<open>base\<close> XOR
  \<open>(idx + 1) * 0x9E3779B9 mod 2^32\<close>, and for every base the ten seeds of the
  indices 0 to 9 are pairwise distinct.\<close>

theorem splitSeed_derive:
  "unat (splitSeed base idx) = unat base XOR ((idx + 1) * 0x9E3779B9) mod 2 ^ 32
   \<and> distinct (map (splitSeed base) [0..<10])"
  using splitSeed_unat splitSeed_distinct by simp

section \<open>Properties of the finance engine\<close>

lemma pow_gt_one: "0 < x \<Longrightarrow> 1 \<le> n \<Longrightarrow> 1 < Math_pow (1 + x) n"
proof -
  assume x: "0 < x" and n: "1 \<le> n"
  have "1 < (1 + x) ^ nat n"
    using x n by (intro one_less_power) auto
  then show ?thesis using n by (simp add: Math_pow_def power_int_def)
qed




lemma fv_factor_pos:
  assumes "- 1 < r" "r \<noteq> 0" "1 \<le> N"
  shows "0 < (Math_pow (1 + r) N - 1) / r"
proof (cases "0 < r")
  case True
  then show ?thesis using pow_gt_one [OF True assms(3)] by simp
next
  case False
  then have neg: "r < 0" using assms(2) by simp
  obtain m where m: "nat N = Suc m"
    using assms(3) by (cases "nat N") auto
  have "(1 + r) ^ Suc m < 1"
    using assms(1) neg by (intro power_Suc_less_one) auto
  then have "Math_pow (1 + r) N - 1 < 0"
    using assms(3) m by (simp add: Math_pow_def power_int_def)
  then show ?thesis using neg by (simp add: divide_neg_neg)
qed

lemma annualSavings_nonneg:
  assumes "- 1 < r" "1 \<le> N"
  shows "0 \<le> annualSavings PVcur K r N timing"
proof (cases "K - PVcur * Math_pow (1 + r) N \<le> 0")
  case True
  then show ?thesis by (simp add: annualSavings_def Let_def)
next
  case False
  define need where "need = K - PVcur * Math_pow (1 + r) N"
  define pmtEnd where "pmtEnd = (if \<bar>r\<bar> < 1 / 10 ^ 12 then need / real_of_int N
                           else need / ((Math_pow (1 + r) N - 1) / r))"
  have need: "0 < need" using False by (simp add: need_def)
  have pe: "0 < pmtEnd"
  proof (cases "\<bar>r\<bar> < 1 / 10 ^ 12")
    case True
    then show ?thesis using need assms(2) by (simp add: pmtEnd_def)
  next
    case nz: False
    then have "r \<noteq> 0" by auto
    then have "0 < (Math_pow (1 + r) N - 1) / r"
      using assms by (intro fv_factor_pos)
    with need have "0 < need / ((Math_pow (1 + r) N - 1) / r)"
      by (rule divide_pos_pos)
    moreover have "pmtEnd = need / ((Math_pow (1 + r) N - 1) / r)"
      using nz by (simp add: pmtEnd_def)
    ultimately show ?thesis by (simp only:)
  qed
  have "annualSavings PVcur K r N timing = (if timing = BEGIN then pmtEnd / (1 + r) else pmtEnd)"
    using False by (simp add: annualSavings_def Let_def pmtEnd_def need_def)
  then show ?thesis using pe assms(1) by simp
qed

text \<open>C2, as stated, fails: \<open>annualSavings\<close> returns a negative value for a
  return below minus 100 percent over an even number of years (here minus 300
  percent over 2 years), and for a negative number of years.\<close>

theorem annualSavings_negative_counterexample:
  "annualSavings 0 100 (- 3) 2 END = - 100 \<and> annualSavings 0 100 (5 / 100) (- 1) END < 0"
  by (simp add: annualSavings_def Math_pow_def)

text \<open>C2, amended. \<open>annualSavings\<close> returns exactly 0 whenever
  \<open>PVcur * (1 + r)^N \<ge> K\<close>; otherwise, with \<open>need = K - PVcur * (1 + r)^N\<close>, it
  returns \<open>need / N\<close> when \<open>|r| < 1e-12\<close> and \<open>need / (((1 + r)^N - 1) / r)\<close>
  when \<open>|r| \<ge> 1e-12\<close>, divided by \<open>1 + r\<close> when the timing is begin-of-period.
  For a return above minus 100 percent and at least one year the value
  returned is never negative.\<close>

theorem annualSavings_amended:
  "(- 1 < r \<and> 1 \<le> N \<longrightarrow> 0 \<le> annualSavings PVcur K r N timing)
   \<and> (K \<le> PVcur * (1 + r) powi N \<longrightarrow> annualSavings PVcur K r N timing = 0)
   \<and> (PVcur * (1 + r) powi N < K \<longrightarrow>
        annualSavings PVcur K r N timing =
          (let need = K - PVcur * (1 + r) powi N;
               pmtEnd = (if \<bar>r\<bar> < 1 / 10 ^ 12 then need / real_of_int N
                         else need / (((1 + r) powi N - 1) / r))
           in case timing of BEGIN \<Rightarrow> pmtEnd / (1 + r) | END \<Rightarrow> pmtEnd))"
proof (intro conjI impI)
  assume "- 1 < r \<and> 1 \<le> N"
  then show "0 \<le> annualSavings PVcur K r N timing"
    by (intro annualSavings_nonneg) simp_all
next
  assume "K \<le> PVcur * (1 + r) powi N"
  then show "annualSavings PVcur K r N timing = 0"
    by (simp add: annualSavings_def Let_def Math_pow_def)
next
  assume "PVcur * (1 + r) powi N < K"
  then show "annualSavings PVcur K r N timing =
          (let need = K - PVcur * (1 + r) powi N;
               pmtEnd = (if \<bar>r\<bar> < 1 / 10 ^ 12 then need / real_of_int N
                         else need / (((1 + r) powi N - 1) / r))
           in case timing of BEGIN \<Rightarrow> pmtEnd / (1 + r) | END \<Rightarrow> pmtEnd)"
    by (cases timing) (simp_all add: annualSavings_def Let_def Math_pow_def)
qed

text \<open>C2, amended, at concrete inputs: a 5 percent return over one year, a
  target of 100, with no savings (the deposit is 100) and with savings of 200
  (already funded, the deposit is 0).\<close>

theorem annualSavings_amended_witness:
  "annualSavings 0 100 (5 / 100) 1 END = 100 \<and> 0 \<le> annualSavings 0 100 (5 / 100) 1 END
   \<and> annualSavings 200 100 (5 / 100) 1 END = 0"
  using annualSavings_amended [of "5 / 100" 1 0 100 END]
    annualSavings_amended [of "5 / 100" 1 200 100 END]
  by simp

text \<open>C3. For every \<open>pmt1\<close> and every positive integer \<open>RLE\<close>,
  \<open>capitalAnnuity pmt1 rReal RLE\<close> is \<open>pmt1 * RLE\<close> when \<open>|rReal| < 1e-12\<close> (so
  exactly \<open>pmt1 * RLE\<close> at \<open>rReal = 0\<close>) and otherwise the annuity-due closed
  form \<open>pmt1 * ((1 - (1 + rReal)^(-RLE)) / rReal) * (1 + rReal)\<close>.\<close>

theorem capitalAnnuity_closed_form:
  assumes "0 < RLE"
  shows "capitalAnnuity pmt1 rReal RLE =
           (if \<bar>rReal\<bar> < 1 / 10 ^ 12 then pmt1 * real_of_int RLE
            else pmt1 * ((1 - 1 / (1 + rReal) ^ nat RLE) / rReal) * (1 + rReal))
         \<and> capitalAnnuity pmt1 0 RLE = pmt1 * real_of_int RLE"
  using assms
  by (simp add: capitalAnnuity_def Let_def Math_pow_def power_int_def power_one_over
      inverse_eq_divide)

text \<open>C3 at concrete inputs: two years, first payment 100, at a real rate of
  10 percent and at a real rate of 0.\<close>

theorem capitalAnnuity_closed_form_witness:
  "(0::int) < 2 \<and> capitalAnnuity 100 (1 / 10) 2 = 2100 / 11 \<and> capitalAnnuity 100 0 2 = 200"
  using capitalAnnuity_closed_form [of 2 100 "1 / 10"]
  by (simp add: power2_eq_square)







text \<open>C10. When \<open>rRetire\<close> is present, \<open>computeGameTruth\<close> uses it, not \<open>r\<close>,
  for the retirement phase: \<open>r_real = (1 + rRetire) / (1 + g) - 1\<close> and
  \<open>keepCPM = capA / (1 + rRetire)^rle\<close>; when it is absent \<open>r\<close> takes its place
  in both. The three savings fields use the pre-retirement rate \<open>r\<close> over
  \<open>rwle\<close> years in either case.\<close>

theorem computeGameTruth_rates:
  "(\<forall>x. scn_rRetire scn = Some x \<longrightarrow>
      truth_r_real (computeGameTruth scn timing) = (1 + x) / (1 + scn_g scn) - 1 \<and>
      truth_keepCPM (computeGameTruth scn timing) =
        truth_capA (computeGameTruth scn timing) / (1 + x) powi scn_rle scn)
   \<and> (scn_rRetire scn = None \<longrightarrow>
      truth_r_real (computeGameTruth scn timing) = (1 + scn_r scn) / (1 + scn_g scn) - 1 \<and>
      truth_keepCPM (computeGameTruth scn timing) =
        truth_capA (computeGameTruth scn timing) / (1 + scn_r scn) powi scn_rle scn)
   \<and> truth_svA (computeGameTruth scn timing) =
        annualSavings (scn_pvcur scn) (truth_capA (computeGameTruth scn timing))
          (scn_r scn) (scn_rwle scn) timing
   \<and> truth_svCPM (computeGameTruth scn timing) =
        annualSavings (scn_pvcur scn) (truth_totalCPM (computeGameTruth scn timing))
          (scn_r scn) (scn_rwle scn) timing
   \<and> truth_svPPPM (computeGameTruth scn timing) =
        annualSavings (scn_pvcur scn) (truth_totalPPPM (computeGameTruth scn timing))
          (scn_r scn) (scn_rwle scn) timing"
  by (simp add: computeGameTruth_def Let_def computeRealRate_def Math_pow_def)

lemma small_scenario_retire_truth:
  "truth_r_real (computeGameTruth small_scenario_retire END) = 1 / 10
   \<and> truth_capA (computeGameTruth small_scenario_retire END) = 100
   \<and> truth_keepCPM (computeGameTruth small_scenario_retire END) = 1000 / 11
   \<and> truth_svA (computeGameTruth small_scenario_retire END) = 100"
  by (simp add: computeGameTruth_def small_scenario_retire_def small_scenario_def Let_def
      Math_pow_def computeRealRate_def capitalAnnuity_def annualSavings_def double_add_def
      round_double_100)

text \<open>C10 at concrete inputs. With \<open>rRetire\<close> 10 percent beside \<open>r\<close> 5 percent and
  no inflation, the real rate is 10 percent and \<open>keepCPM\<close> is \<open>100 / 1.1\<close>, while
  the savings still are those of the 5 percent rate; without \<open>rRetire\<close> the real
  rate is 5 percent and \<open>keepCPM\<close> is \<open>100 / 1.05\<close>.\<close>

theorem computeGameTruth_rates_witness:
  "scn_rRetire small_scenario_retire = Some (1 / 10)
   \<and> scn_r small_scenario_retire = 5 / 100
   \<and> truth_r_real (computeGameTruth small_scenario_retire END) = 1 / 10
   \<and> truth_keepCPM (computeGameTruth small_scenario_retire END) = 1000 / 11
   \<and> truth_svA (computeGameTruth small_scenario_retire END)
       = annualSavings 0 100 (5 / 100) 1 END
   \<and> scn_rRetire small_scenario = None
   \<and> truth_r_real (computeGameTruth small_scenario END) = 5 / 100
   \<and> truth_keepCPM (computeGameTruth small_scenario END) = 2000 / 21"
  using computeGameTruth_rates [of small_scenario_retire END]
    computeGameTruth_rates [of small_scenario END]
  by (simp add: small_scenario_retire_truth small_scenario_truth)
     (simp add: small_scenario_retire_def small_scenario_def)

section \<open>Properties of the scenario generator\<close>

text \<open>Every call of the generator advances its state by the same increment
  and returns a float in \<open>[0, 1)\<close>; \<open>randInt\<close> stays within its bounds, so the
  array reads of the generator are in range.\<close>

lemma snd_mulberry32_next: "snd (mulberry32_next t) = t + 0x6D2B79F5"
  by (simp add: mulberry32_next_def Let_def)

lemma snd_randInt: "snd (randInt t lo hi) = t + 0x6D2B79F5"
  by (simp add: randInt_def split_def snd_mulberry32_next)

lemma snd_randFloat: "snd (randFloat t lo hi) = t + 0x6D2B79F5"
  by (simp add: randFloat_def split_def snd_mulberry32_next)

lemma rng_range: "0 \<le> fst (mulberry32_next t) \<and> fst (mulberry32_next t) < 1"
proof -
  obtain w :: u32 where w: "fst (mulberry32_next t) = real_of_int (uint w) / 4294967296"
    unfolding mulberry32_next_def Let_def fst_conv by blast
  have "uint w < 2 ^ LENGTH(32)" by (rule uint_bounded)
  then have "real_of_int (uint w) < 4294967296" by (simp del: of_int_uint)
  then show ?thesis unfolding w by (simp del: of_int_uint)
qed

lemma randInt_range:
  assumes "lo \<le> hi"
  shows "lo \<le> fst (randInt t lo hi) \<and> fst (randInt t lo hi) \<le> hi"
proof -
  define u where "u = fst (mulberry32_next t)"
  define n where "n = hi - lo + 1"
  have u: "0 \<le> u" "u < 1" using rng_range [of t] by (simp_all add: u_def)
  have n: "0 < n" using assms by (simp add: n_def)
  have "0 \<le> u * real_of_int n" using u n by simp
  then have lo: "0 \<le> \<lfloor>u * real_of_int n\<rfloor>" by simp
  have "u * real_of_int n < real_of_int n" using u n by simp
  then have hi: "\<lfloor>u * real_of_int n\<rfloor> < n" by (simp add: floor_less_iff)
  have "fst (randInt t lo hi) = lo + \<lfloor>u * real_of_int n\<rfloor>"
    by (simp add: randInt_def split_def Let_def Math_floor_def u_def n_def)
  with lo hi show ?thesis by (simp add: n_def)
qed

lemma pick_randInt:
  assumes "0 \<le> n" "int (length xs) = n + 1"
  shows "\<exists>x\<in>set xs. js_index xs (fst (randInt t 0 n)) = Some x"
proof -
  have "0 \<le> fst (randInt t 0 n)" "fst (randInt t 0 n) < int (length xs)"
    using randInt_range [OF assms(1), of t] assms(2) by simp_all
  then show ?thesis by (simp add: js_index_def)
qed

lemma js_index_randInt:
  assumes "xs \<noteq> []"
  shows "js_index xs (fst (randInt t 0 (int (length xs) - 1)))
           = Some (xs ! nat (fst (randInt t 0 (int (length xs) - 1))))"
proof -
  have "0 \<le> int (length xs) - 1" using assms by (cases xs) auto
  from randInt_range [OF this, of t] show ?thesis by (simp add: js_index_def)
qed

lemmas generate_unfold =
  generateScenarioFromSeed_def Let_def split_def RANGES.simps fst_conv snd_conv
  Difficulty.simps if_True if_False refl Option.bind.bind_lunit Ranges.select_convs
  option.case js_index_randInt list.distinct not_False_eq_True

text \<open>The shape of a generated scenario, tier by tier.\<close>

lemma generate_easy:
  "\<exists>wrr\<in>{0.70, 0.75, 0.80, 0.85}. \<exists>g\<in>{0.020, 0.025, 0.030, 0.035}.
   \<exists>r\<in>{0.060, 0.070, 0.080, 0.090}. \<exists>income ss rwle rle name bio.
     generateScenarioFromSeed seed Easy =
       Some \<lparr> scn_name = name, scn_bio = bio,
              scn_income = real_of_int (Math_round (real_of_int income / 1000) * 1000),
              scn_wrr = wrr,
              scn_ss = real_of_int (Math_round (real_of_int ss / 1000) * 1000),
              scn_rwle = Math_round (real_of_int rwle / 5) * 5,
              scn_rle = Math_round (real_of_int rle / 5) * 5,
              scn_g = g, scn_r = r, scn_pvcur = 0,
              scn_rRetire = None, scn_bequest = None \<rparr>"
proof -
  define t where "t = mulberry32 seed"
  let ?W = "[0.70, 0.75, 0.80, 0.85 :: real]"
  let ?G = "[0.020, 0.025, 0.030, 0.035 :: real]"
  let ?R = "[0.060, 0.070, 0.080, 0.090 :: real]"
  let ?NAMES = "[''Alex'', ''Jordan'', ''Taylor'', ''Morgan'', ''Riley'', ''Casey'', ''Drew'']"
  let ?LAST = "[''Reeves'', ''Kim'', ''Singh'', ''Garcia'', ''Patel'', ''Lee'']"
  let ?BIOS = "[''Analyst planning hikes.'', ''Small business owner plan.'',
                ''Teacher traveler.'', ''Engineer optimizer.'']"
  have "\<exists>x\<in>set ?W. js_index ?W (fst (randInt (8 * 0x6D2B79F5 + t) 0 3)) = Some x"
    by (rule pick_randInt) simp_all
  then obtain wrr where wrr: "wrr \<in> set ?W"
      "js_index ?W (fst (randInt (8 * 0x6D2B79F5 + t) 0 3)) = Some wrr" by blast
  have "\<exists>x\<in>set ?G. js_index ?G (fst (randInt (9 * 0x6D2B79F5 + t) 0 3)) = Some x"
    by (rule pick_randInt) simp_all
  then obtain g where g: "g \<in> set ?G"
      "js_index ?G (fst (randInt (9 * 0x6D2B79F5 + t) 0 3)) = Some g" by blast
  have "\<exists>x\<in>set ?R. js_index ?R (fst (randInt (10 * 0x6D2B79F5 + t) 0 3)) = Some x"
    by (rule pick_randInt) simp_all
  then obtain r where r: "r \<in> set ?R"
      "js_index ?R (fst (randInt (10 * 0x6D2B79F5 + t) 0 3)) = Some r" by blast
  have "\<exists>x\<in>set ?NAMES. js_index ?NAMES (fst (randInt (11 * 0x6D2B79F5 + t) 0 6)) = Some x"
    by (rule pick_randInt) simp_all
  then obtain firstName where firstName:
      "js_index ?NAMES (fst (randInt (11 * 0x6D2B79F5 + t) 0 6)) = Some firstName" by blast
  have "\<exists>x\<in>set ?LAST. js_index ?LAST (fst (randInt (12 * 0x6D2B79F5 + t) 0 5)) = Some x"
    by (rule pick_randInt) simp_all
  then obtain lastName where lastName:
      "js_index ?LAST (fst (randInt (12 * 0x6D2B79F5 + t) 0 5)) = Some lastName" by blast
  have "\<exists>x\<in>set ?BIOS. js_index ?BIOS (fst (randInt (13 * 0x6D2B79F5 + t) 0 3)) = Some x"
    by (rule pick_randInt) simp_all
  then obtain bio where bio:
      "js_index ?BIOS (fst (randInt (13 * 0x6D2B79F5 + t) 0 3)) = Some bio" by blast
  have rg: "\<not> r \<le> g" using r(1) g(1) by auto
  have "generateScenarioFromSeed seed Easy =
       Some \<lparr> scn_name = firstName @ '' '' @ lastName, scn_bio = bio,
              scn_income = real_of_int (Math_round (real_of_int (fst (randInt t 50000 90000)) / 1000) * 1000),
              scn_wrr = wrr,
              scn_ss = real_of_int (Math_round (real_of_int (fst (randInt (2 * 0x6D2B79F5 + t) 12000 28000)) / 1000) * 1000),
              scn_rwle = Math_round (real_of_int (fst (randInt (3 * 0x6D2B79F5 + t) 15 25)) / 5) * 5,
              scn_rle = Math_round (real_of_int (fst (randInt (4 * 0x6D2B79F5 + t) 20 30)) / 5) * 5,
              scn_g = g, scn_r = r, scn_pvcur = 0,
              scn_rRetire = None, scn_bequest = None \<rparr>"
    using wrr(2) g(2) r(2) firstName lastName bio rg
    by (simp add: generateScenarioFromSeed_def Let_def split_def snd_randInt snd_randFloat t_def)
  moreover have "wrr \<in> {0.70, 0.75, 0.80, 0.85}" "g \<in> {0.020, 0.025, 0.030, 0.035}"
    "r \<in> {0.060, 0.070, 0.080, 0.090}"
    using wrr(1) g(1) r(1) by simp_all
  ultimately show ?thesis by blast
qed

lemma generate_normal:
  "\<exists>name bio income wrr ss rwle rle pvcur g r0.
     generateScenarioFromSeed seed Normal =
       Some \<lparr> scn_name = name, scn_bio = bio, scn_income = income, scn_wrr = wrr,
              scn_ss = ss, scn_rwle = rwle, scn_rle = rle, scn_g = g,
              scn_r = (if r0 \<le> g then g + 0.0005 else r0), scn_pvcur = pvcur,
              scn_rRetire = None, scn_bequest = None \<rparr>"
  by (simp only: generate_unfold) (intro exI, rule refl)

lemma generate_hard:
  "\<exists>name bio income wrr ss rwle rle pvcur bequest g r0 delta.
     generateScenarioFromSeed seed Hard =
       Some \<lparr> scn_name = name, scn_bio = bio, scn_income = income, scn_wrr = wrr,
              scn_ss = ss, scn_rwle = rwle, scn_rle = rle, scn_g = g,
              scn_r = (if r0 \<le> g then g + 0.0005 else r0), scn_pvcur = pvcur,
              scn_rRetire =
                Some (if max 0 ((if r0 \<le> g then g + 0.0005 else r0) + delta) \<le> g
                      then g + 0.0005
                      else max 0 ((if r0 \<le> g then g + 0.0005 else r0) + delta)),
              scn_bequest = Some bequest \<rparr>"
  by (simp only: generate_unfold) (intro exI, rule refl)

lemma hard_rRetire_present:
  "generateScenarioFromSeed seed Hard = Some scn \<Longrightarrow> \<exists>rr. scn_rRetire scn = Some rr"
  using generate_hard [of seed] by auto

text \<open>C4. For every 32-bit seed and every difficulty tier the generator
  returns a scenario, and that scenario has \<open>r > g\<close> strictly and, when the
  \<open>rRetire\<close> field is present, \<open>rRetire > g\<close> strictly.\<close>

theorem generateScenario_rate_invariant:
  "\<exists>scn. generateScenarioFromSeed seed difficulty = Some scn \<and> scn_g scn < scn_r scn
     \<and> (\<forall>rr. scn_rRetire scn = Some rr \<longrightarrow> scn_g scn < rr)"
proof (cases difficulty)
  case Easy
  from generate_easy [of seed] obtain wrr g r :: real and income ss rwle rle name bio where
    "g \<in> {0.020, 0.025, 0.030, 0.035}" "r \<in> {0.060, 0.070, 0.080, 0.090}"
    and "generateScenarioFromSeed seed Easy =
       Some \<lparr> scn_name = name, scn_bio = bio,
              scn_income = real_of_int (Math_round (real_of_int income / 1000) * 1000),
              scn_wrr = wrr,
              scn_ss = real_of_int (Math_round (real_of_int ss / 1000) * 1000),
              scn_rwle = Math_round (real_of_int rwle / 5) * 5,
              scn_rle = Math_round (real_of_int rle / 5) * 5,
              scn_g = g, scn_r = r, scn_pvcur = 0,
              scn_rRetire = None, scn_bequest = None \<rparr>"
    by blast
  then show ?thesis unfolding Easy by auto
next
  case Normal
  from generate_normal [of seed] obtain name bio income wrr ss rwle rle pvcur g r0 where
    "generateScenarioFromSeed seed Normal =
       Some \<lparr> scn_name = name, scn_bio = bio, scn_income = income, scn_wrr = wrr,
              scn_ss = ss, scn_rwle = rwle, scn_rle = rle, scn_g = g,
              scn_r = (if r0 \<le> g then g + 0.0005 else r0), scn_pvcur = pvcur,
              scn_rRetire = None, scn_bequest = None \<rparr>"
    by blast
  then show ?thesis unfolding Normal by simp
next
  case Hard
  from generate_hard [of seed] obtain name bio income wrr ss rwle rle pvcur bequest g r0 delta where
    "generateScenarioFromSeed seed Hard =
       Some \<lparr> scn_name = name, scn_bio = bio, scn_income = income, scn_wrr = wrr,
              scn_ss = ss, scn_rwle = rwle, scn_rle = rle, scn_g = g,
              scn_r = (if r0 \<le> g then g + 0.0005 else r0), scn_pvcur = pvcur,
              scn_rRetire =
                Some (if max 0 ((if r0 \<le> g then g + 0.0005 else r0) + delta) \<le> g
                      then g + 0.0005
                      else max 0 ((if r0 \<le> g then g + 0.0005 else r0) + delta)),
              scn_bequest = Some bequest \<rparr>"
    by blast
  then show ?thesis unfolding Hard by (simp add: max_def)
qed

text \<open>C4 at seed 42 on the hard tier, where the \<open>rRetire\<close> field is present.\<close>

theorem generateScenario_rate_invariant_witness:
  "\<exists>scn rr. generateScenarioFromSeed 42 Hard = Some scn \<and> scn_rRetire scn = Some rr
     \<and> scn_g scn < rr \<and> scn_g scn < scn_r scn"
  using generateScenario_rate_invariant [of 42 Hard] hard_rRetire_present [of 42]
  by auto

text \<open>C7. For every 32-bit seed the easy tier returns a scenario with
  \<open>pvcur = 0\<close>, \<open>wrr\<close>, \<open>g\<close> and \<open>r\<close> from their option sets, \<open>income\<close> and \<open>ss\<close>
  integer multiples of 1000, and \<open>rwle\<close> and \<open>rle\<close> integer multiples of 5.\<close>

theorem generateScenario_easy:
  "\<exists>scn. generateScenarioFromSeed seed Easy = Some scn
     \<and> scn_pvcur scn = 0
     \<and> scn_wrr scn \<in> {0.70, 0.75, 0.80, 0.85}
     \<and> scn_g scn \<in> {0.020, 0.025, 0.030, 0.035}
     \<and> scn_r scn \<in> {0.060, 0.070, 0.080, 0.090}
     \<and> (\<exists>k::int. scn_income scn = real_of_int (1000 * k))
     \<and> (\<exists>k::int. scn_ss scn = real_of_int (1000 * k))
     \<and> 5 dvd scn_rwle scn \<and> 5 dvd scn_rle scn"
proof -
  from generate_easy [of seed] obtain wrr g r income ss rwle rle name bio where
    sets: "wrr \<in> {0.70, 0.75, 0.80, 0.85}" "g \<in> {0.020, 0.025, 0.030, 0.035}"
      "r \<in> {0.060, 0.070, 0.080, 0.090}"
    and gen: "generateScenarioFromSeed seed Easy =
       Some \<lparr> scn_name = name, scn_bio = bio,
              scn_income = real_of_int (Math_round (real_of_int income / 1000) * 1000),
              scn_wrr = wrr,
              scn_ss = real_of_int (Math_round (real_of_int ss / 1000) * 1000),
              scn_rwle = Math_round (real_of_int rwle / 5) * 5,
              scn_rle = Math_round (real_of_int rle / 5) * 5,
              scn_g = g, scn_r = r, scn_pvcur = 0,
              scn_rRetire = None, scn_bequest = None \<rparr>"
    by blast
  have "\<exists>k::int. real_of_int (Math_round x * 1000) = real_of_int (1000 * k)" for x
    by (rule exI [of _ "Math_round x"]) simp
  then show ?thesis using sets by (simp add: gen)
qed

text \<open>A sample run: base seed 42, problem index 0, easy tier. The seed of the
  problem is \<open>splitSeed 42 0\<close>; the lemma \<open>rng_outputs_problem0\<close> lists the
  outputs of the generator that the easy scenario depends on (calls 1, 3, 4,
  5 and 9 to 14).\<close>

lemma splitSeed_42_0: "splitSeed 42 0 = 2654435731"
  by (simp add: splitSeed_def Math_imul_def GOLD_def)

lemma fst_randInt:
  "fst (randInt t lo hi) = lo + \<lfloor>fst (mulberry32_next t) * real_of_int (hi - lo + 1)\<rfloor>"
  by (simp add: randInt_def split_def Let_def Math_floor_def)

lemma rng_outputs_problem0:
  "fst (mulberry32_next 2654435731) = 516809217 / 1073741824"
  "fst (mulberry32_next 6317567357) = 1584665099 / 2147483648"
  "fst (mulberry32_next 8149133170) = 5142773 / 8388608"
  "fst (mulberry32_next 9980698983) = 3022023119 / 4294967296"
  "fst (mulberry32_next 17306962235) = 3006306691 / 4294967296"
  "fst (mulberry32_next 19138528048) = 582756713 / 1073741824"
  "fst (mulberry32_next 20970093861) = 2515163997 / 4294967296"
  "fst (mulberry32_next 22801659674) = 992055855 / 1073741824"
  "fst (mulberry32_next 24633225487) = 2779284519 / 4294967296"
  "fst (mulberry32_next 26464791300) = 1499309979 / 2147483648"
  by (simp_all add: mulberry32_next_def Math_imul_def Let_def)

lemma generateScenario_problem0:
  "generateScenarioFromSeed (splitSeed 42 0) Easy =
    Some \<lparr> scn_name = ''Drew Garcia'', scn_bio = ''Teacher traveler.'',
           scn_income = 69000, scn_wrr = 4 / 5, scn_ss = 24000, scn_rwle = 20,
           scn_rle = 25, scn_g = 3 / 100, scn_r = 2 / 25, scn_pvcur = 0,
           scn_rRetire = None, scn_bequest = None \<rparr>"
  by (simp add: splitSeed_42_0 generateScenarioFromSeed_def Let_def split_def snd_randInt
      snd_randFloat fst_randInt mulberry32_def rng_outputs_problem0 Math_round_def js_index_def)

text \<open>C7 at base seed 42, problem index 0.\<close>

theorem generateScenario_easy_witness:
  "\<exists>scn. generateScenarioFromSeed (splitSeed 42 0) Easy = Some scn
     \<and> scn_pvcur scn = 0 \<and> scn_wrr scn = 0.80 \<and> scn_g scn = 0.030 \<and> scn_r scn = 0.080
     \<and> scn_income scn = 69 * 1000 \<and> scn_ss scn = 24 * 1000
     \<and> scn_rwle scn = 4 * 5 \<and> scn_rle scn = 5 * 5"
  using generateScenario_easy [of "splitSeed 42 0"]
  by (simp add: generateScenario_problem0)

end
